theory Spec2Isabelle
  imports Main
begin

section \<open>The mock state manager of the staking agent (mock-state.ts)\<close>

text \<open>
  The ledger keeps two maps, one from account identifiers to account records and one from
  pool identifiers to pool records. The source stores every monetary field as a decimal
  string and converts it with \<open>BigInt(...)\<close> before use and with \<open>.toString()\<close> after.
  Every string the ledger itself stores is either the literal \<open>'0'\<close>, the literal default
  balance, or the output of \<open>toString()\<close> on a BigInt, so it is the canonical decimal
  numeral of an integer: \<open>BigInt(x.toString())\<close> is \<open>x\<close>, and the comparison of a stored
  field with \<open>'0'\<close> is the comparison of its integer with zero. The stored fields are
  therefore modelled by the integers they denote (\<open>int\<close>, unbounded like BigInt). Amounts
  supplied by the caller are arbitrary strings and are parsed here as the source does.

  Pool identifiers, member counts and timestamps are JavaScript numbers holding
  integers; they are modelled by \<open>int\<close>. \<open>Date.now()\<close> is the parameter \<open>now\<close> of the
  operations that read the clock.
\<close>

subsection \<open>Parsing caller-supplied amounts: \<open>BigInt(string)\<close>\<close>

text \<open>
  \<open>BigInt(s)\<close> on a string follows StringToBigInt of ECMA-262: white space is trimmed on
  both sides; the empty text is \<open>0n\<close>; otherwise the text is either decimal digits with
  an optional sign, or an unsigned literal with prefix \<open>0x\<close>, \<open>0o\<close> or \<open>0b\<close> (either case).
  Anything else makes \<open>BigInt\<close> throw a SyntaxError, which is \<open>None\<close> here. Characters
  are the code units below 256; the white space among them is TAB, LF, VT, FF, CR, SP
  and NBSP.
\<close>

definition isStrWhiteSpaceChar :: "char \<Rightarrow> bool" where
  "isStrWhiteSpaceChar c =
     (let n = (of_char c :: nat)
      in n = 9 \<or> n = 10 \<or> n = 11 \<or> n = 12 \<or> n = 13 \<or> n = 32 \<or> n = 160)"

definition trimString :: "string \<Rightarrow> string" where
  "trimString s =
     rev (dropWhile isStrWhiteSpaceChar (rev (dropWhile isStrWhiteSpaceChar s)))"

definition digitValue :: "char \<Rightarrow> nat option" where
  "digitValue c =
     (let n = (of_char c :: nat)
      in if 48 \<le> n \<and> n \<le> 57 then Some (n - 48)
         else if 97 \<le> n \<and> n \<le> 102 then Some (n - 87)
         else if 65 \<le> n \<and> n \<le> 70 then Some (n - 55)
         else None)"

fun digitsMV :: "nat \<Rightarrow> string \<Rightarrow> nat \<Rightarrow> nat option" where
  "digitsMV radix [] acc = Some acc"
| "digitsMV radix (c # cs) acc =
     (case digitValue c of
        None \<Rightarrow> None
      | Some d \<Rightarrow> if d < radix then digitsMV radix cs (acc * radix + d) else None)"

definition digitsLiteral :: "nat \<Rightarrow> string \<Rightarrow> int option" where
  "digitsLiteral radix cs =
     (if cs = [] then None else map_option int (digitsMV radix cs 0))"

definition BigInt :: "string \<Rightarrow> int option" where
  "BigInt str =
     (let t = trimString str
      in if t = [] then Some 0
         else if take 2 t = ''0x'' \<or> take 2 t = ''0X'' then digitsLiteral 16 (drop 2 t)
         else if take 2 t = ''0o'' \<or> take 2 t = ''0O'' then digitsLiteral 8 (drop 2 t)
         else if take 2 t = ''0b'' \<or> take 2 t = ''0B'' then digitsLiteral 2 (drop 2 t)
         else if take 1 t = ''-'' then map_option uminus (digitsLiteral 10 (drop 1 t))
         else if take 1 t = ''+'' then digitsLiteral 10 (drop 1 t)
         else digitsLiteral 10 t)"

text \<open>
  Division of BigInts truncates towards zero. The divisor is never zero where the
  ledger divides.
\<close>

definition bigint_div :: "int \<Rightarrow> int \<Rightarrow> int" where
  "bigint_div a b = sgn a * sgn b * (\<bar>a\<bar> div \<bar>b\<bar>)"

subsection \<open>Records\<close>

datatype lifecycle = Open | Blocked | Destroying

record AccountState =
  balance :: int
  poolId :: "int option"
  bonded :: int
  unbonding :: int
  unbondingEra :: "int option"
  claimableRewards :: int

text \<open>
  A message is a template literal: literal text and interpolated values in order.
  \<open>formatBalance\<close> goes through floating point, so its application to an amount is kept
  as \<open>Bal\<close> of that amount, and the remaining-days figure as \<open>Days\<close> of the release time
  and the clock reading.
\<close>

datatype frag =
    Str string
  | Num int
  | NumOpt "int option"
  | Bal int
  | Life lifecycle
  | Days int int

type_synonym template = "frag list"

record PoolState =
  pool_poolId :: int
  pool_bonded :: int
  memberCount :: int
  state :: lifecycle
  commission :: string
  metadata :: "template option"

record ledger =
  accountStates :: "string \<rightharpoonup> AccountState"
  poolStates :: "int \<rightharpoonup> PoolState"

definition emptyLedger :: ledger where
  "emptyLedger = \<lparr>accountStates = Map.empty, poolStates = Map.empty\<rparr>"

definition DEFAULT_BALANCE :: int where
  "DEFAULT_BALANCE = 10000000000000"

definition UNBONDING_PERIOD_MS :: int where
  "UNBONDING_PERIOD_MS = 28 * 24 * 60 * 60 * 1000"

definition minReserve :: int where
  "minReserve = 10000000000"

definition newAccount :: AccountState where
  "newAccount =
     \<lparr>balance = DEFAULT_BALANCE, poolId = None, bonded = 0, unbonding = 0,
      unbondingEra = None, claimableRewards = 0\<rparr>"

definition newPool :: "int \<Rightarrow> PoolState" where
  "newPool pid =
     \<lparr>pool_poolId = pid, pool_bonded = 0, memberCount = 0, state = Open,
      commission = ''0%'',
      metadata = Some [Str ''Pool '', Num pid, Str '' (Mock)'']\<rparr>"

subsection \<open>Get-or-create accessors\<close>

definition getAccountState :: "string \<Rightarrow> ledger \<Rightarrow> AccountState \<times> ledger" where
  "getAccountState account L =
     (case accountStates L account of
        None \<Rightarrow> (newAccount, L\<lparr>accountStates := (accountStates L)(account \<mapsto> newAccount)\<rparr>)
      | Some a \<Rightarrow> (a, L))"

definition getPoolState :: "int \<Rightarrow> ledger \<Rightarrow> PoolState \<times> ledger" where
  "getPoolState pid L =
     (case poolStates L pid of
        None \<Rightarrow> (newPool pid, L\<lparr>poolStates := (poolStates L)(pid \<mapsto> newPool pid)\<rparr>)
      | Some p \<Rightarrow> (p, L))"

text \<open>What a caller sees of an account or a pool, whether its record exists yet or not.\<close>

definition accountView :: "ledger \<Rightarrow> string \<Rightarrow> AccountState" where
  "accountView L account = fst (getAccountState account L)"

definition poolView :: "ledger \<Rightarrow> int \<Rightarrow> PoolState" where
  "poolView L pid = fst (getPoolState pid L)"

text \<open>The same, read off the maps.\<close>

definition accountOf :: "(string \<rightharpoonup> AccountState) \<Rightarrow> string \<Rightarrow> AccountState" where
  "accountOf m account = (case m account of None \<Rightarrow> newAccount | Some a \<Rightarrow> a)"

definition poolOf :: "(int \<rightharpoonup> PoolState) \<Rightarrow> int \<Rightarrow> PoolState" where
  "poolOf m pid = (case m pid of None \<Rightarrow> newPool pid | Some p \<Rightarrow> p)"

subsection \<open>Outcomes\<close>

datatype js_error = SyntaxError

datatype 'a completion = Return 'a | Throw js_error

record result =
  success :: bool
  message :: template
  error :: "string option"

definition failed :: "template \<Rightarrow> string \<Rightarrow> result" where
  "failed m e = \<lparr>success = False, message = m, error = Some e\<rparr>"

definition succeeded :: "template \<Rightarrow> result" where
  "succeeded m = \<lparr>success = True, message = m, error = None\<rparr>"

text \<open>\<open>accountState.unbondingEra || 0\<close>: an absent release time counts as 0.\<close>

definition orZero :: "int option \<Rightarrow> int" where
  "orZero t = (case t of None \<Rightarrow> 0 | Some v \<Rightarrow> v)"

subsection \<open>The operations\<close>

definition mockJoinPool ::
  "int \<Rightarrow> string \<Rightarrow> int \<Rightarrow> string \<Rightarrow> ledger \<Rightarrow> result completion \<times> ledger" where
  "mockJoinPool now account pid amount L0 =
     (let (accountState, L1) = getAccountState account L0;
          (poolState, L) = getPoolState pid L1
      in case BigInt amount of
           None \<Rightarrow> (Throw SyntaxError, L)
         | Some amountBigInt \<Rightarrow>
             let balanceBigInt = balance accountState;
                 bondedBigInt = bonded accountState;
                 unbondingBigInt = unbonding accountState
             in if state poolState \<noteq> Open then
                  (Return (failed [Str ''Cannot join pool '', Num pid, Str '': pool is '',
                                   Life (state poolState)] ''POOL_NOT_OPEN''), L)
                else if poolId accountState \<noteq> None \<and> poolId accountState \<noteq> Some pid then
                  (Return (failed [Str ''Already in pool '', NumOpt (poolId accountState),
                                   Str ''. Unbond first to switch pools.'']
                             ''ALREADY_IN_POOL''), L)
                else if unbondingBigInt > 0 \<and> now < orZero (unbondingEra accountState) then
                  (Return (failed [Str ''Cannot join pool: '', Bal unbondingBigInt,
                                   Str '' WND still unbonding ('',
                                   Days (orZero (unbondingEra accountState)) now,
                                   Str '' days remaining). Withdraw unbonded funds first.'']
                             ''FUNDS_UNBONDING''), L)
                else if balanceBigInt < amountBigInt + minReserve then
                  (Return (failed [Str ''Insufficient balance. Need '', Bal amountBigInt,
                                   Str '' WND + fees, have '', Bal balanceBigInt, Str '' WND'']
                             ''INSUFFICIENT_BALANCE''), L)
                else if poolId accountState = Some pid then
                  (Return (failed [Str ''Already in pool '', Num pid,
                                   Str ''. Use bond_extra to add more funds.'']
                             ''ALREADY_IN_POOL''), L)
                else
                  (let accountState' = accountState
                         \<lparr>balance := balanceBigInt - amountBigInt,
                          poolId := Some pid,
                          bonded := bondedBigInt + amountBigInt\<rparr>;
                       poolState' = poolState
                         \<lparr>pool_bonded := pool_bonded poolState + amountBigInt,
                          memberCount := (if bondedBigInt = 0 then memberCount poolState + 1
                                          else memberCount poolState)\<rparr>
                   in (Return (succeeded [Str ''Successfully joined pool '', Num pid,
                                          Str '' with '', Bal amountBigInt, Str '' WND'']),
                       L\<lparr>accountStates := (accountStates L)(account \<mapsto> accountState'),
                         poolStates := (poolStates L)(pid \<mapsto> poolState')\<rparr>)))"

definition mockBondExtra ::
  "string \<Rightarrow> string \<Rightarrow> ledger \<Rightarrow> result completion \<times> ledger" where
  "mockBondExtra account amount L0 =
     (let (accountState, L1) = getAccountState account L0
      in case BigInt amount of
           None \<Rightarrow> (Throw SyntaxError, L1)
         | Some amountBigInt \<Rightarrow>
             let balanceBigInt = balance accountState
             in case poolId accountState of
                  None \<Rightarrow>
                    (Return (failed [Str ''Not in any pool. Join a pool first.'']
                               ''NOT_IN_POOL''), L1)
                | Some pid \<Rightarrow>
                    if balanceBigInt < amountBigInt + minReserve then
                      (Return (failed [Str ''Insufficient balance. Need '', Bal amountBigInt,
                                       Str '' WND + fees''] ''INSUFFICIENT_BALANCE''), L1)
                    else
                      (let (poolState, L) = getPoolState pid L1;
                           accountState' = accountState
                             \<lparr>balance := balanceBigInt - amountBigInt,
                              bonded := bonded accountState + amountBigInt\<rparr>;
                           poolState' = poolState
                             \<lparr>pool_bonded := pool_bonded poolState + amountBigInt\<rparr>
                       in (Return (succeeded [Str ''Successfully bonded extra '',
                                              Bal amountBigInt, Str '' WND to pool '',
                                              NumOpt (poolId accountState')]),
                           L\<lparr>accountStates := (accountStates L)(account \<mapsto> accountState'),
                             poolStates := (poolStates L)(pid \<mapsto> poolState')\<rparr>)))"

definition mockUnbond ::
  "int \<Rightarrow> string \<Rightarrow> string \<Rightarrow> ledger \<Rightarrow> result completion \<times> ledger" where
  "mockUnbond now account amount L0 =
     (let (accountState, L1) = getAccountState account L0
      in case BigInt amount of
           None \<Rightarrow> (Throw SyntaxError, L1)
         | Some amountBigInt \<Rightarrow>
             let bondedBigInt = bonded accountState
             in case poolId accountState of
                  None \<Rightarrow> (Return (failed [Str ''Not in any pool''] ''NOT_IN_POOL''), L1)
                | Some pid \<Rightarrow>
                    if amountBigInt > bondedBigInt then
                      (Return (failed [Str ''Cannot unbond '', Bal amountBigInt,
                                       Str '' WND: only '', Bal bondedBigInt,
                                       Str '' WND bonded''] ''INSUFFICIENT_BONDED''), L1)
                    else
                      (let (poolState, L) = getPoolState pid L1;
                           accountState1 = accountState
                             \<lparr>bonded := bondedBigInt - amountBigInt,
                              unbonding := unbonding accountState + amountBigInt,
                              unbondingEra := Some (now + UNBONDING_PERIOD_MS)\<rparr>;
                           poolState1 = poolState
                             \<lparr>pool_bonded := pool_bonded poolState - amountBigInt\<rparr>;
                           fully = (bonded accountState1 = 0);
                           accountState' =
                             (if fully then accountState1\<lparr>poolId := None\<rparr>
                              else accountState1);
                           poolState' =
                             (if fully
                              then poolState1\<lparr>memberCount := max 0 (memberCount poolState1 - 1)\<rparr>
                              else poolState1)
                       in (Return (succeeded [Str ''Initiated unbonding of '', Bal amountBigInt,
                                              Str '' WND (28-day unbonding period)'']),
                           L\<lparr>accountStates := (accountStates L)(account \<mapsto> accountState'),
                             poolStates := (poolStates L)(pid \<mapsto> poolState')\<rparr>)))"

definition mockWithdrawUnbonded ::
  "int \<Rightarrow> string \<Rightarrow> ledger \<Rightarrow> result completion \<times> ledger" where
  "mockWithdrawUnbonded now account L0 =
     (let (accountState, L) = getAccountState account L0;
          unbondingBigInt = unbonding accountState
      in if unbondingBigInt = 0 then
           (Return (failed [Str ''No unbonded funds to withdraw''] ''NO_UNBONDED_FUNDS''), L)
         else
           (let unbondingCompleteTime = orZero (unbondingEra accountState)
            in if now < unbondingCompleteTime then
                 (Return (failed [Str ''Unbonding period not complete. '',
                                  Days unbondingCompleteTime now, Str '' days remaining.'']
                            ''UNBONDING_PERIOD_NOT_COMPLETE''), L)
               else
                 (let accountState' = accountState
                        \<lparr>balance := balance accountState + unbondingBigInt,
                         unbonding := 0,
                         unbondingEra := None\<rparr>
                  in (Return (succeeded [Str ''Withdrew '', Bal unbondingBigInt,
                                         Str '' WND (now available as free balance)'']),
                      L\<lparr>accountStates := (accountStates L)(account \<mapsto> accountState')\<rparr>))))"

definition mockClaimRewards ::
  "string \<Rightarrow> int option \<Rightarrow> ledger \<Rightarrow> result completion \<times> ledger" where
  "mockClaimRewards account pid L0 =
     (let (accountState, L) = getAccountState account L0
      in if poolId accountState = None then
           (Return (failed [Str ''Not in any pool''] ''NOT_IN_POOL''), L)
         else if pid \<noteq> None \<and> poolId accountState \<noteq> pid then
           (Return (failed [Str ''Not in pool '', NumOpt pid, Str ''. Currently in pool '',
                            NumOpt (poolId accountState)] ''WRONG_POOL''), L)
         else
           (let rewardsBigInt = claimableRewards accountState
            in if rewardsBigInt = 0 then
                 (Return (succeeded [Str ''No rewards to claim'']), L)
               else
                 (let accountState' = accountState
                        \<lparr>balance := balance accountState + rewardsBigInt,
                         claimableRewards := 0\<rparr>
                  in (Return (succeeded [Str ''Claimed '', Bal rewardsBigInt,
                                         Str '' WND in rewards'']),
                      L\<lparr>accountStates := (accountStates L)(account \<mapsto> accountState')\<rparr>))))"

record status =
  st_account :: string
  st_poolId :: "int option"
  st_bonded :: int
  st_unbonding :: int
  st_claimableRewards :: int
  isMember :: bool
  st_balance :: int

definition mockGetStakingStatus :: "string \<Rightarrow> ledger \<Rightarrow> status \<times> ledger" where
  "mockGetStakingStatus account L0 =
     (let (accountState, L1) = getAccountState account L0;
          (accountState', L) =
            (if poolId accountState \<noteq> None \<and> bonded accountState \<noteq> 0 then
               (let bondedBigInt = bonded accountState;
                    rewardIncrement = bigint_div bondedBigInt 1000;
                    updated = accountState
                      \<lparr>claimableRewards := claimableRewards accountState + rewardIncrement\<rparr>
                in (updated, L1\<lparr>accountStates := (accountStates L1)(account \<mapsto> updated)\<rparr>))
             else (accountState, L1))
      in (\<lparr>st_account = account,
           st_poolId = poolId accountState',
           st_bonded = bonded accountState',
           st_unbonding = unbonding accountState',
           st_claimableRewards = claimableRewards accountState',
           isMember = (poolId accountState' \<noteq> None),
           st_balance = balance accountState'\<rparr>,
          L))"

record roles =
  depositor :: string
  root :: string
  nominator :: string
  stateToggler :: string

record poolInfo =
  info_poolId :: int
  info_bonded :: int
  info_memberCount :: int
  info_state :: lifecycle
  info_commission :: string
  info_metadata :: "template option"
  info_roles :: roles

definition mockGetPoolInfo :: "int \<Rightarrow> ledger \<Rightarrow> poolInfo \<times> ledger" where
  "mockGetPoolInfo pid L0 =
     (let (poolState, L) = getPoolState pid L0
      in (\<lparr>info_poolId = pool_poolId poolState,
           info_bonded = pool_bonded poolState,
           info_memberCount = memberCount poolState,
           info_state = state poolState,
           info_commission = commission poolState,
           info_metadata = metadata poolState,
           info_roles = \<lparr>depositor = ''N/A'', root = ''N/A'', nominator = ''N/A'',
                         stateToggler = ''N/A''\<rparr>\<rparr>,
          L))"

subsection \<open>Sequences of operations\<close>

text \<open>
  A call of one of the six core operations, with the clock reading at the call. The
  caller goes on after a failure or an exception, so a sequence of calls threads the
  ledger through all of them.
\<close>

datatype op =
    JoinPool string int string
  | BondExtra string string
  | Unbond string string
  | WithdrawUnbonded string
  | ClaimRewards string "int option"
  | GetStatus string

fun step :: "ledger \<Rightarrow> int \<times> op \<Rightarrow> ledger" where
  "step L (now, JoinPool account pid amount) = snd (mockJoinPool now account pid amount L)"
| "step L (now, BondExtra account amount) = snd (mockBondExtra account amount L)"
| "step L (now, Unbond account amount) = snd (mockUnbond now account amount L)"
| "step L (now, WithdrawUnbonded account) = snd (mockWithdrawUnbonded now account L)"
| "step L (now, ClaimRewards account pid) = snd (mockClaimRewards account pid L)"
| "step L (now, GetStatus account) = snd (mockGetStakingStatus account L)"

definition run :: "(int \<times> op) list \<Rightarrow> ledger" where
  "run ops = foldl step emptyLedger ops"

definition total :: "AccountState \<Rightarrow> int" where
  "total a = balance a + bonded a + unbonding a + claimableRewards a"

subsection \<open>Notions used to state the properties\<close>

text \<open>The accounts that currently belong to a pool.\<close>

definition members :: "ledger \<Rightarrow> int \<Rightarrow> string set" where
  "members L pid = {a. poolId (accountView L a) = Some pid}"

text \<open>
  What every ledger reached from the empty one satisfies: finitely many records, an
  account outside every pool has nothing bonded, and a pool's member count is the number
  of its members.
\<close>

definition consistent :: "ledger \<Rightarrow> bool" where
  "consistent L \<longleftrightarrow>
     finite (dom (accountStates L))
   \<and> (\<forall>a. poolId (accountView L a) = None \<longrightarrow> bonded (accountView L a) = 0)
   \<and> (\<forall>pid. memberCount (poolView L pid) = int (card (members L pid)))"

text \<open>
  The amount of a call, where it parses, is at least zero, and more than zero for a join.
\<close>

fun amountOk :: "op \<Rightarrow> bool" where
  "amountOk (JoinPool account pid amount) =
     (case BigInt amount of None \<Rightarrow> True | Some n \<Rightarrow> 0 < n)"
| "amountOk (BondExtra account amount) =
     (case BigInt amount of None \<Rightarrow> True | Some n \<Rightarrow> 0 \<le> n)"
| "amountOk (Unbond account amount) =
     (case BigInt amount of None \<Rightarrow> True | Some n \<Rightarrow> 0 \<le> n)"
| "amountOk (WithdrawUnbonded account) = True"
| "amountOk (ClaimRewards account pid) = True"
| "amountOk (GetStatus account) = True"

text \<open>The amount of a call, where it parses, is unsigned: at least zero.\<close>

fun amountUnsigned :: "op \<Rightarrow> bool" where
  "amountUnsigned (JoinPool account pid amount) =
     (case BigInt amount of None \<Rightarrow> True | Some n \<Rightarrow> 0 \<le> n)"
| "amountUnsigned (BondExtra account amount) =
     (case BigInt amount of None \<Rightarrow> True | Some n \<Rightarrow> 0 \<le> n)"
| "amountUnsigned (Unbond account amount) =
     (case BigInt amount of None \<Rightarrow> True | Some n \<Rightarrow> 0 \<le> n)"
| "amountUnsigned (WithdrawUnbonded account) = True"
| "amountUnsigned (ClaimRewards account pid) = True"
| "amountUnsigned (GetStatus account) = True"

definition bondedIffMember :: "ledger \<Rightarrow> bool" where
  "bondedIffMember L \<longleftrightarrow>
     (\<forall>a. (poolId (accountView L a) \<noteq> None \<longleftrightarrow> bonded (accountView L a) \<noteq> 0)
        \<and> 0 \<le> bonded (accountView L a))"

text \<open>The account a call is about.\<close>

fun opAccount :: "op \<Rightarrow> string" where
  "opAccount (JoinPool account pid amount) = account"
| "opAccount (BondExtra account amount) = account"
| "opAccount (Unbond account amount) = account"
| "opAccount (WithdrawUnbonded account) = account"
| "opAccount (ClaimRewards account pid) = account"
| "opAccount (GetStatus account) = account"

text \<open>An account record with a pool and a positive bonded amount, or with neither.\<close>

definition bondedWithPool :: "AccountState \<Rightarrow> bool" where
  "bondedWithPool x = (case poolId x of None \<Rightarrow> bonded x = 0 | Some q \<Rightarrow> 0 < bonded x)"

text \<open>When a join, and when an unbond, passes all its checks.\<close>

definition joins :: "int \<Rightarrow> string \<Rightarrow> int \<Rightarrow> string \<Rightarrow> ledger \<Rightarrow> bool" where
  "joins now a p s L \<longleftrightarrow>
     (case BigInt s of
        None \<Rightarrow> False
      | Some n \<Rightarrow>
          state (poolOf (poolStates L) p) = Open
        \<and> poolId (accountOf (accountStates L) a) = None
        \<and> \<not> (0 < unbonding (accountOf (accountStates L) a)
             \<and> now < orZero (unbondingEra (accountOf (accountStates L) a)))
        \<and> \<not> balance (accountOf (accountStates L) a) < n + minReserve)"

definition unbonds :: "string \<Rightarrow> string \<Rightarrow> ledger \<Rightarrow> bool" where
  "unbonds a s L \<longleftrightarrow>
     (case BigInt s of
        None \<Rightarrow> False
      | Some n \<Rightarrow>
          poolId (accountOf (accountStates L) a) \<noteq> None
        \<and> \<not> n > bonded (accountOf (accountStates L) a))"

text \<open>Ledgers used as concrete inputs: Alice after joining pool 1 with 1000.\<close>

definition aliceJoined :: ledger where
  "aliceJoined = run [(0, JoinPool ''alice'' 1 ''1000'')]"

text \<open>Alice after joining with 1000 and one status read.\<close>

definition aliceRewarded :: ledger where
  "aliceRewarded = snd (mockGetStakingStatus ''alice'' aliceJoined)"

text \<open>Alice after joining with 1000 and unbonding 400 of it at time 0.\<close>

definition alicePartlyUnbonded :: ledger where
  "alicePartlyUnbonded =
     run [(0, JoinPool ''alice'' 1 ''1000''), (0, Unbond ''alice'' ''400'')]"

text \<open>A ledger in which pool 2 is blocked and Bob has a free balance of 500.\<close>

definition blockedAndPoor :: ledger where
  "blockedAndPoor =
     \<lparr>accountStates = [''bob'' \<mapsto> newAccount\<lparr>balance := 500\<rparr>],
      poolStates = [2 \<mapsto> (newPool 2)\<lparr>state := Blocked\<rparr>]\<rparr>"

text \<open>Alice after joining with 1000 and unbonding all of it at time 0.\<close>

definition aliceUnbonded :: ledger where
  "aliceUnbonded = run [(0, JoinPool ''alice'' 1 ''1000''), (0, Unbond ''alice'' ''1000'')]"

section \<open>Basic facts\<close>

lemma accountView_alt: "accountView L a = accountOf (accountStates L) a"
  by (simp add: accountView_def getAccountState_def accountOf_def split: option.splits)

lemma poolView_alt: "poolView L p = poolOf (poolStates L) p"
  by (simp add: poolView_def getPoolState_def poolOf_def split: option.splits)

lemma accountOf_upd: "accountOf (m(a \<mapsto> x)) b = (if b = a then x else accountOf m b)"
  by (simp add: accountOf_def)

lemma poolOf_upd: "poolOf (m(p \<mapsto> x)) q = (if q = p then x else poolOf m q)"
  by (simp add: poolOf_def)

lemma getAccountState_conv:
  "getAccountState a L =
     (accountOf (accountStates L) a,
      L\<lparr>accountStates := (accountStates L)(a \<mapsto> accountOf (accountStates L) a)\<rparr>)"
  by (auto simp: getAccountState_def accountOf_def map_upd_triv split: option.splits)

lemma getPoolState_conv:
  "getPoolState p L =
     (poolOf (poolStates L) p, L\<lparr>poolStates := (poolStates L)(p \<mapsto> poolOf (poolStates L) p)\<rparr>)"
  by (auto simp: getPoolState_def poolOf_def map_upd_triv split: option.splits)

lemma touch_account:
  "accountStates L a \<noteq> None \<Longrightarrow>
     L\<lparr>accountStates := (accountStates L)(a \<mapsto> accountOf (accountStates L) a)\<rparr> = L"
  by (auto simp: accountOf_def map_upd_triv)

lemma member_exists: "poolId (accountOf m a) = Some p \<Longrightarrow> m a \<noteq> None"
  by (auto simp: accountOf_def newAccount_def split: option.splits)

lemma unbonding_exists: "unbonding (accountOf m a) \<noteq> 0 \<Longrightarrow> m a \<noteq> None"
  by (auto simp: accountOf_def newAccount_def split: option.splits)

lemmas parse_defs = BigInt_def trimString_def isStrWhiteSpaceChar_def digitsLiteral_def
  digitValue_def

lemmas view_simps = accountView_alt poolView_alt accountOf_upd poolOf_upd

lemma aliceJoined_eq:
  "aliceJoined =
     \<lparr>accountStates = [''alice'' \<mapsto>
        \<lparr>balance = 9999999999000, poolId = Some 1, bonded = 1000, unbonding = 0,
         unbondingEra = None, claimableRewards = 0\<rparr>],
      poolStates = [1 \<mapsto> (newPool 1)\<lparr>pool_bonded := 1000, memberCount := 1\<rparr>]\<rparr>"
  by (simp add: aliceJoined_def run_def mockJoinPool_def getAccountState_def getPoolState_def
      emptyLedger_def newAccount_def newPool_def parse_defs minReserve_def DEFAULT_BALANCE_def
      succeeded_def)

lemma aliceUnbonded_eq:
  "aliceUnbonded =
     \<lparr>accountStates = [''alice'' \<mapsto>
        \<lparr>balance = 9999999999000, poolId = None, bonded = 0, unbonding = 1000,
         unbondingEra = Some 2419200000, claimableRewards = 0\<rparr>],
      poolStates = [1 \<mapsto> newPool 1]\<rparr>"
  by (simp add: aliceUnbonded_def run_def mockJoinPool_def mockUnbond_def getAccountState_def
      getPoolState_def emptyLedger_def newAccount_def newPool_def parse_defs minReserve_def
      DEFAULT_BALANCE_def UNBONDING_PERIOD_MS_def succeeded_def)

lemma bigint_div_nonneg: "0 \<le> a \<Longrightarrow> bigint_div a 1000 = a div 1000"
  by (cases "a = 0") (simp_all add: bigint_div_def)

lemma bigint_div_1000: "bigint_div 1000 1000 = 1"
  by (simp add: bigint_div_def)

lemma bigint_div_sign: "0 \<le> a \<Longrightarrow> 0 \<le> bigint_div a 1000"
  by (simp add: bigint_div_nonneg)

lemmas op_defs = mockJoinPool_def mockBondExtra_def mockUnbond_def mockWithdrawUnbonded_def
  mockClaimRewards_def mockGetStakingStatus_def getAccountState_conv getPoolState_conv Let_def

lemma alicePartlyUnbonded_eq:
  "alicePartlyUnbonded =
     \<lparr>accountStates = [''alice'' \<mapsto>
        \<lparr>balance = 9999999999000, poolId = Some 1, bonded = 600, unbonding = 400,
         unbondingEra = Some 2419200000, claimableRewards = 0\<rparr>],
      poolStates = [1 \<mapsto> (newPool 1)\<lparr>pool_bonded := 600, memberCount := 1\<rparr>]\<rparr>"
  by (simp add: alicePartlyUnbonded_def run_def mockJoinPool_def mockUnbond_def
      getAccountState_def getPoolState_def emptyLedger_def newAccount_def newPool_def parse_defs
      minReserve_def DEFAULT_BALANCE_def UNBONDING_PERIOD_MS_def succeeded_def)

lemma blockedAndPoor_views:
  "state (poolView blockedAndPoor 2) = Blocked"
  "state (poolView blockedAndPoor 1) = Open"
  "accountView blockedAndPoor ''bob'' =
     \<lparr>balance = 500, poolId = None, bonded = 0, unbonding = 0, unbondingEra = None,
      claimableRewards = 0\<rparr>"
  by (simp_all add: blockedAndPoor_def view_simps poolOf_def newPool_def newAccount_def)

section \<open>The effect of a call on the maps\<close>

lemma join_ok:
  assumes "joins now a p s L"
  shows "accountStates (snd (mockJoinPool now a p s L)) =
           (accountStates L)(a \<mapsto> (accountOf (accountStates L) a)
              \<lparr>balance := balance (accountOf (accountStates L) a) - the (BigInt s),
               poolId := Some p,
               bonded := bonded (accountOf (accountStates L) a) + the (BigInt s)\<rparr>)"
    and "poolStates (snd (mockJoinPool now a p s L)) =
           (poolStates L)(p \<mapsto> (poolOf (poolStates L) p)
              \<lparr>pool_bonded := pool_bonded (poolOf (poolStates L) p) + the (BigInt s),
               memberCount := (if bonded (accountOf (accountStates L) a) = 0
                               then memberCount (poolOf (poolStates L) p) + 1
                               else memberCount (poolOf (poolStates L) p))\<rparr>)"
  using assms
  by (auto simp: joins_def op_defs split: option.splits)

lemma join_fail:
  assumes "\<not> joins now a p s L"
  shows "accountStates (snd (mockJoinPool now a p s L)) =
           (accountStates L)(a \<mapsto> accountOf (accountStates L) a)"
    and "poolStates (snd (mockJoinPool now a p s L)) =
           (poolStates L)(p \<mapsto> poolOf (poolStates L) p)"
  using assms
  by (auto simp: joins_def op_defs split: option.splits)

lemma unbond_ok:
  assumes "unbonds a s L" and "poolId (accountOf (accountStates L) a) = Some p"
  shows "accountStates (snd (mockUnbond now a s L)) =
           (accountStates L)(a \<mapsto> (accountOf (accountStates L) a)
              \<lparr>bonded := bonded (accountOf (accountStates L) a) - the (BigInt s),
               unbonding := unbonding (accountOf (accountStates L) a) + the (BigInt s),
               unbondingEra := Some (now + UNBONDING_PERIOD_MS),
               poolId := (if bonded (accountOf (accountStates L) a) - the (BigInt s) = 0
                          then None else Some p)\<rparr>)"
    and "poolStates (snd (mockUnbond now a s L)) =
           (poolStates L)(p \<mapsto> (poolOf (poolStates L) p)
              \<lparr>pool_bonded := pool_bonded (poolOf (poolStates L) p) - the (BigInt s),
               memberCount :=
                 (if bonded (accountOf (accountStates L) a) - the (BigInt s) = 0
                  then max 0 (memberCount (poolOf (poolStates L) p) - 1)
                  else memberCount (poolOf (poolStates L) p))\<rparr>)"
  using assms
  by (auto simp: unbonds_def op_defs split: option.splits)

lemma unbond_fail:
  assumes "\<not> unbonds a s L"
  shows "accountStates (snd (mockUnbond now a s L)) =
           (accountStates L)(a \<mapsto> accountOf (accountStates L) a)"
    and "poolStates (snd (mockUnbond now a s L)) = poolStates L"
  using assms
  by (auto simp: unbonds_def op_defs split: option.splits)

lemma bondExtra_memberCount:
  "memberCount (poolOf (poolStates (snd (mockBondExtra a s L))) q) =
     memberCount (poolOf (poolStates L) q)"
  "poolId (accountOf (accountStates (snd (mockBondExtra a s L))) a) =
     poolId (accountOf (accountStates L) a)"
  by (auto simp: op_defs accountOf_upd poolOf_upd split: option.splits)

lemma other_ops_pool:
  "poolStates (snd (mockWithdrawUnbonded now a L)) = poolStates L"
  "poolStates (snd (mockClaimRewards a pid L)) = poolStates L"
  "poolStates (snd (mockGetStakingStatus a L)) = poolStates L"
  "poolId (accountOf (accountStates (snd (mockWithdrawUnbonded now a L))) a) =
     poolId (accountOf (accountStates L) a)"
  "poolId (accountOf (accountStates (snd (mockClaimRewards a pid L))) a) =
     poolId (accountOf (accountStates L) a)"
  "poolId (accountOf (accountStates (snd (mockGetStakingStatus a L))) a) =
     poolId (accountOf (accountStates L) a)"
  by (auto simp: op_defs accountOf_upd)

lemma step_memberCount:
  assumes N: "poolId (accountOf (accountStates L) (opAccount c)) = None \<longrightarrow>
           bonded (accountOf (accountStates L) (opAccount c)) = 0"
      and M: "\<And>p. poolId (accountOf (accountStates L) (opAccount c)) = Some p \<Longrightarrow>
           1 \<le> memberCount (poolOf (poolStates L) p)"
  shows "memberCount (poolOf (poolStates (step L (now, c))) q) =
           memberCount (poolOf (poolStates L) q)
         + (if poolId (accountOf (accountStates (step L (now, c))) (opAccount c)) = Some q
               \<and> poolId (accountOf (accountStates L) (opAccount c)) \<noteq> Some q then 1 else 0)
         - (if poolId (accountOf (accountStates L) (opAccount c)) = Some q
               \<and> poolId (accountOf (accountStates (step L (now, c))) (opAccount c)) \<noteq> Some q
            then 1 else 0)"
proof (cases c)
  case (JoinPool a p s)
  show ?thesis
  proof (cases "joins now a p s L")
    case True
    then have "poolId (accountOf (accountStates L) a) = None"
      by (auto simp: joins_def split: option.splits)
    moreover from this N JoinPool have "bonded (accountOf (accountStates L) a) = 0" by simp
    ultimately show ?thesis
      using JoinPool by (simp add: join_ok [OF True] accountOf_upd poolOf_upd)
  next
    case False
    with JoinPool show ?thesis by (simp add: join_fail [OF False] accountOf_upd poolOf_upd)
  qed
next
  case (BondExtra a s)
  then show ?thesis by (simp add: bondExtra_memberCount)
next
  case (Unbond a s)
  show ?thesis
  proof (cases "unbonds a s L")
    case True
    then obtain p where p: "poolId (accountOf (accountStates L) a) = Some p"
      by (auto simp: unbonds_def split: option.splits)
    with M Unbond have "1 \<le> memberCount (poolOf (poolStates L) p)" by simp
    with p Unbond show ?thesis
      by (simp add: unbond_ok [OF True p] accountOf_upd poolOf_upd)
  next
    case False
    with Unbond show ?thesis by (simp add: unbond_fail [OF False] accountOf_upd)
  qed
next
  case (WithdrawUnbonded a)
  then show ?thesis by (simp add: other_ops_pool)
next
  case (ClaimRewards a p)
  then show ?thesis by (simp add: other_ops_pool)
next
  case (GetStatus a)
  then show ?thesis by (simp add: other_ops_pool)
qed

section \<open>What holds after every sequence of calls\<close>

lemma foldl_step_invariant:
  assumes "\<And>L x. x \<in> set ops \<Longrightarrow> P L \<Longrightarrow> P (step L x)" and "P L"
  shows "P (foldl step L ops)"
  using assms by (induction ops arbitrary: L) auto

lemma step_accounts:
  "accountStates (step L (now, c)) =
     (accountStates L)(opAccount c \<mapsto> accountOf (accountStates (step L (now, c))) (opAccount c))"
  by (cases c) (auto simp: op_defs accountOf_upd split: option.splits)

lemma step_bondedWithPool:
  assumes "bondedWithPool (accountOf (accountStates L) (opAccount c))" and "amountOk c"
  shows "bondedWithPool (accountOf (accountStates (step L (now, c))) (opAccount c))"
  using assms
  by (cases c) (auto simp: op_defs accountOf_upd bondedWithPool_def split: option.splits)

lemma bondedIffMember_alt:
  "bondedIffMember L \<longleftrightarrow> (\<forall>a. bondedWithPool (accountOf (accountStates L) a))"
proof -
  have "\<And>x. ((poolId x \<noteq> None \<longleftrightarrow> bonded x \<noteq> 0) \<and> 0 \<le> bonded x) = bondedWithPool x"
    by (auto simp: bondedWithPool_def split: option.splits)
  then show ?thesis by (simp add: bondedIffMember_def accountView_alt)
qed

lemma bondedIffMember_empty: "bondedIffMember emptyLedger"
  by (simp add: bondedIffMember_alt emptyLedger_def accountOf_def newAccount_def
      bondedWithPool_def)

lemma bondedIffMember_step:
  assumes I: "bondedIffMember L" and ok: "amountOk (snd x)"
  shows "bondedIffMember (step L x)"
proof -
  obtain now c where x: "x = (now, c)" by (cases x)
  let ?a = "opAccount c"
  let ?x = "accountOf (accountStates (step L (now, c))) ?a"
  from I have all: "\<And>b. bondedWithPool (accountOf (accountStates L) b)"
    by (simp add: bondedIffMember_alt)
  have good: "bondedWithPool ?x"
    using all [of ?a] ok x by (simp add: step_bondedWithPool)
  have "bondedWithPool (accountOf (accountStates (step L (now, c))) b)" for b
  proof (cases "b = ?a")
    case True
    with good show ?thesis by simp
  next
    case False
    have "accountOf (accountStates (step L (now, c))) b = accountOf (accountStates L) b"
      by (subst step_accounts) (simp add: accountOf_upd False)
    with all [of b] show ?thesis by simp
  qed
  with x show ?thesis by (simp add: bondedIffMember_alt)
qed

lemma bondedIffMember_run:
  assumes "\<forall>x \<in> set ops. amountOk (snd x)"
  shows "bondedIffMember (run ops)"
  unfolding run_def
proof (rule foldl_step_invariant)
  show "bondedIffMember emptyLedger" by (rule bondedIffMember_empty)
next
  fix L x assume "x \<in> set ops" and "bondedIffMember L"
  with assms show "bondedIffMember (step L x)" by (simp add: bondedIffMember_step)
qed

lemma step_bonded_none:
  assumes "poolId (accountOf (accountStates L) (opAccount c)) = None \<longrightarrow>
           bonded (accountOf (accountStates L) (opAccount c)) = 0"
      and "poolId (accountOf (accountStates (step L (now, c))) (opAccount c)) = None"
  shows "bonded (accountOf (accountStates (step L (now, c))) (opAccount c)) = 0"
  using assms
  by (cases c) (auto simp: op_defs accountOf_upd split: option.splits if_splits)

lemma members_alt: "members L p = {a. poolId (accountOf (accountStates L) a) = Some p}"
  by (simp add: members_def accountView_alt)

lemma members_subset_dom: "members L p \<subseteq> dom (accountStates L)"
  by (auto simp: members_alt dest: member_exists)

lemma consistent_alt:
  "consistent L \<longleftrightarrow>
     finite (dom (accountStates L))
   \<and> (\<forall>a. poolId (accountOf (accountStates L) a) = None \<longrightarrow>
            bonded (accountOf (accountStates L) a) = 0)
   \<and> (\<forall>p. memberCount (poolOf (poolStates L) p) = int (card (members L p)))"
  by (simp add: consistent_def accountView_alt poolView_alt)

lemma consistent_empty: "consistent emptyLedger"
  by (simp add: consistent_alt members_alt emptyLedger_def accountOf_def poolOf_def
      newAccount_def newPool_def)

lemma consistent_member_counted:
  assumes "consistent L" and "poolId (accountOf (accountStates L) a) = Some p"
  shows "1 \<le> memberCount (poolOf (poolStates L) p)"
proof -
  from assms(1) have fin: "finite (members L p)"
    using members_subset_dom [of L p] by (auto simp: consistent_alt intro: finite_subset)
  from assms(2) have "a \<in> members L p" by (simp add: members_alt)
  with fin have "0 < card (members L p)" by (auto simp: card_gt_0_iff)
  with assms(1) show ?thesis by (simp add: consistent_alt)
qed

lemma consistent_step:
  assumes C: "consistent L"
  shows "consistent (step L x)"
proof -
  obtain now c where x: "x = (now, c)" by (cases x)
  let ?a = "opAccount c"
  let ?L' = "step L (now, c)"
  let ?old = "accountOf (accountStates L) ?a"
  let ?new = "accountOf (accountStates ?L') ?a"
  from C have fin: "finite (dom (accountStates L))"
    and N: "\<And>b. poolId (accountOf (accountStates L) b) = None \<Longrightarrow>
                bonded (accountOf (accountStates L) b) = 0"
    and cnt: "\<And>p. memberCount (poolOf (poolStates L) p) = int (card (members L p))"
    by (simp_all add: consistent_alt)
  have acc: "accountStates ?L' = (accountStates L)(?a \<mapsto> ?new)" by (rule step_accounts)
  have other: "accountOf (accountStates ?L') b = accountOf (accountStates L) b" if "b \<noteq> ?a" for b
    by (subst acc) (simp add: accountOf_upd that)
  have fin': "finite (dom (accountStates ?L'))"
    by (subst acc) (simp add: fin)
  have N': "bonded (accountOf (accountStates ?L') b) = 0"
    if "poolId (accountOf (accountStates ?L') b) = None" for b
  proof (cases "b = ?a")
    case True
    with that step_bonded_none [of L c now] N [of ?a] show ?thesis by auto
  next
    case False
    with that other [OF False] N [of b] show ?thesis by simp
  qed
  have cnt': "memberCount (poolOf (poolStates ?L') q) = int (card (members ?L' q))" for q
  proof -
    have finq: "finite (members L q)"
      using members_subset_dom [of L q] fin by (rule finite_subset)
    have memb: "b \<in> members ?L' q \<longleftrightarrow>
        (if b = ?a then poolId ?new = Some q else b \<in> members L q)" for b
      using other [of b] by (simp add: members_alt)
    have mem: "members ?L' q =
        (if poolId ?new = Some q then insert ?a (members L q) else members L q - {?a})"
      by (auto simp: memb split: if_splits)
    have inq: "?a \<in> members L q \<longleftrightarrow> poolId ?old = Some q" by (simp add: members_alt)
    have mc: "memberCount (poolOf (poolStates ?L') q) =
           memberCount (poolOf (poolStates L) q)
         + (if poolId ?new = Some q \<and> poolId ?old \<noteq> Some q then 1 else 0)
         - (if poolId ?old = Some q \<and> poolId ?new \<noteq> Some q then 1 else 0)"
      by (rule step_memberCount) (use N [of ?a] consistent_member_counted [OF C] in auto)
    show ?thesis
    proof (cases "poolId ?new = Some q")
      case True
      show ?thesis
      proof (cases "poolId ?old = Some q")
        case True
        with \<open>poolId ?new = Some q\<close> inq have "members ?L' q = members L q"
          by (auto simp: mem)
        with mc True \<open>poolId ?new = Some q\<close> cnt [of q] show ?thesis by simp
      next
        case False
        with inq have "?a \<notin> members L q" by simp
        with finq have "card (insert ?a (members L q)) = Suc (card (members L q))" by simp
        with mc False True cnt [of q] mem show ?thesis by simp
      qed
    next
      case False
      show ?thesis
      proof (cases "poolId ?old = Some q")
        case True
        with inq have m: "?a \<in> members L q" by simp
        with finq have "card (members L q - {?a}) = card (members L q) - 1" by simp
        moreover from m finq have "0 < card (members L q)" by (auto simp: card_gt_0_iff)
        ultimately have "int (card (members L q - {?a})) = int (card (members L q)) - 1"
          by simp
        with mc False True cnt [of q] mem show ?thesis by simp
      next
        case F2: False
        with inq have "members L q - {?a} = members L q" by auto
        with mc False F2 cnt [of q] mem show ?thesis by simp
      qed
    qed
  qed
  from fin' N' cnt' x show ?thesis by (simp add: consistent_alt)
qed

lemma consistent_run: "consistent (run ops)"
  unfolding run_def
  by (rule foldl_step_invariant) (simp_all add: consistent_step consistent_empty)

section \<open>Pool membership\<close>

text \<open>
  Claim C1, as stated, asks that after every sequence of calls the pool id of an account is
  present exactly when its bonded amount is not zero. \<open>JoinPool\<close> does not look at the
  sign of the amount: a first call with the amount \<open>0\<close> passes every check, sets the pool
  id and leaves the bonded amount at 0.
\<close>

theorem membership_counterexample:
  "bonded (accountView (run [(0, JoinPool ''alice'' 1 ''0'')]) ''alice'') = 0
 \<and> poolId (accountView (run [(0, JoinPool ''alice'' 1 ''0'')]) ''alice'') = Some 1"
  by (simp add: run_def mockJoinPool_def getAccountState_def getPoolState_def emptyLedger_def
      newAccount_def newPool_def parse_defs minReserve_def DEFAULT_BALANCE_def view_simps)

text \<open>
  Claim C1, amended. After every sequence of calls from the empty ledger an account has
  at most one pool id, and an account without a pool id has nothing bonded. When every
  amount in the sequence that parses is at least zero, and more than zero in a join, the
  pool id is present exactly when the bonded amount is not zero.
\<close>

theorem membership_invariant:
  "card {p. poolId (accountView (run ops) a) = Some p} \<le> 1
 \<and> (poolId (accountView (run ops) a) = None \<longrightarrow> bonded (accountView (run ops) a) = 0)
 \<and> (list_all (\<lambda>x. amountOk (snd x)) ops \<longrightarrow>
      (poolId (accountView (run ops) a) \<noteq> None \<longleftrightarrow> bonded (accountView (run ops) a) \<noteq> 0))"
proof (intro conjI impI)
  show "card {p. poolId (accountView (run ops) a) = Some p} \<le> 1"
    by (cases "poolId (accountView (run ops) a)") simp_all
  show "bonded (accountView (run ops) a) = 0" if "poolId (accountView (run ops) a) = None"
    using consistent_run [of ops] that by (simp add: consistent_def)
  show "(poolId (accountView (run ops) a) \<noteq> None) = (bonded (accountView (run ops) a) \<noteq> 0)"
    if "list_all (\<lambda>x. amountOk (snd x)) ops"
  proof -
    from that have "\<forall>x \<in> set ops. amountOk (snd x)" by (simp add: list_all_iff)
    then have "bondedIffMember (run ops)" by (rule bondedIffMember_run)
    then show ?thesis by (simp add: bondedIffMember_def)
  qed
qed

theorem membership_invariant_witness:
  "list_all (\<lambda>x. amountOk (snd x))
     [(0, JoinPool ''alice'' 1 ''1000''), (0, Unbond ''alice'' ''400'')]
 \<and> poolId (accountView alicePartlyUnbonded ''alice'') \<noteq> None
 \<and> bonded (accountView alicePartlyUnbonded ''alice'') \<noteq> 0
 \<and> card {p. poolId (accountView alicePartlyUnbonded ''alice'') = Some p} \<le> 1
 \<and> list_all (\<lambda>x. amountOk (snd x))
     [(0, JoinPool ''alice'' 1 ''1000''), (0, Unbond ''alice'' ''1000'')]
 \<and> poolId (accountView aliceUnbonded ''alice'') = None
 \<and> bonded (accountView aliceUnbonded ''alice'') = 0"
proof -
  have h1: "list_all (\<lambda>x. amountOk (snd x))
     [(0, JoinPool ''alice'' 1 ''1000''), (0, Unbond ''alice'' ''400'')]"
    and h2: "list_all (\<lambda>x. amountOk (snd x))
     [(0, JoinPool ''alice'' 1 ''1000''), (0, Unbond ''alice'' ''1000'')]"
    by (simp_all add: parse_defs)
  have n: "poolId (accountView aliceUnbonded ''alice'') = None"
    by (simp add: aliceUnbonded_eq view_simps)
  have b: "bonded (accountView alicePartlyUnbonded ''alice'') \<noteq> 0"
    by (simp add: alicePartlyUnbonded_eq view_simps)
  from membership_invariant
         [of "[(0, JoinPool ''alice'' 1 ''1000''), (0, Unbond ''alice'' ''400'')]" "''alice''"]
       membership_invariant
         [of "[(0, JoinPool ''alice'' 1 ''1000''), (0, Unbond ''alice'' ''1000'')]" "''alice''"]
       h1 h2 n b
  show ?thesis
    by (simp add: alicePartlyUnbonded_def [symmetric] aliceUnbonded_def [symmetric])
qed

section \<open>Conservation\<close>

lemma total_after_call:
  "total (accountView (snd (mockJoinPool now b p s L)) a) = total (accountView L a)
 \<and> total (accountView (snd (mockBondExtra b s L)) a) = total (accountView L a)
 \<and> total (accountView (snd (mockUnbond now b s L)) a) = total (accountView L a)
 \<and> total (accountView (snd (mockWithdrawUnbonded now b L)) a) = total (accountView L a)
 \<and> total (accountView (snd (mockClaimRewards b pid L)) a) = total (accountView L a)
 \<and> total (accountView (snd (mockGetStakingStatus b L)) a) =
      total (accountView L a)
      + (if a = b \<and> poolId (accountView L b) \<noteq> None \<and> bonded (accountView L b) \<noteq> 0
         then bigint_div (bonded (accountView L b)) 1000 else 0)"
proof (intro conjI)
  show "total (accountView (snd (mockJoinPool now b p s L)) a) = total (accountView L a)"
  proof (cases "joins now b p s L")
    case True
    then show ?thesis by (simp add: view_simps join_ok total_def)
  next
    case False
    then show ?thesis by (simp add: view_simps join_fail)
  qed
  show "total (accountView (snd (mockBondExtra b s L)) a) = total (accountView L a)"
    by (auto simp: op_defs view_simps total_def split: option.splits)
  show "total (accountView (snd (mockUnbond now b s L)) a) = total (accountView L a)"
  proof (cases "unbonds b s L")
    case True
    then obtain q where "poolId (accountOf (accountStates L) b) = Some q"
      by (auto simp: unbonds_def split: option.splits)
    with True show ?thesis by (simp add: view_simps unbond_ok total_def)
  next
    case False
    then show ?thesis by (simp add: view_simps unbond_fail)
  qed
  show "total (accountView (snd (mockWithdrawUnbonded now b L)) a) = total (accountView L a)"
    by (auto simp: op_defs view_simps total_def)
  show "total (accountView (snd (mockClaimRewards b pid L)) a) = total (accountView L a)"
    by (auto simp: op_defs view_simps total_def)
  show "total (accountView (snd (mockGetStakingStatus b L)) a) =
      total (accountView L a)
      + (if a = b \<and> poolId (accountView L b) \<noteq> None \<and> bonded (accountView L b) \<noteq> 0
         then bigint_div (bonded (accountView L b)) 1000 else 0)"
    by (auto simp: op_defs view_simps total_def)
qed

lemma step_bonded_unsigned:
  fixes L :: ledger
  assumes "0 \<le> bonded (accountOf (accountStates L) (opAccount c))" and "amountUnsigned c"
  shows "0 \<le> bonded (accountOf (accountStates (step L (now, c))) (opAccount c))"
  using assms
  by (cases c) (auto simp: op_defs accountOf_upd split: option.splits)

lemma bonded_unsigned_run:
  assumes "list_all (\<lambda>x. amountUnsigned (snd x)) ops"
  shows "0 \<le> bonded (accountView (run ops) a)"
proof -
  have "\<forall>b. 0 \<le> bonded (accountOf (accountStates (foldl step emptyLedger ops)) b)"
  proof (rule foldl_step_invariant)
    show "\<forall>b. 0 \<le> bonded (accountOf (accountStates emptyLedger) b)"
      by (simp add: emptyLedger_def accountOf_def newAccount_def)
  next
    fix L :: ledger and x :: "int \<times> op"
    assume x: "x \<in> set ops" and I: "\<forall>b. 0 \<le> bonded (accountOf (accountStates L) b)"
    obtain now c where xc: "x = (now, c)" by (cases x)
    from assms x xc have ok: "amountUnsigned c" by (auto simp: list_all_iff)
    have "0 \<le> bonded (accountOf (accountStates (step L (now, c))) b)" for b
    proof (cases "b = opAccount c")
      case True
      with I ok show ?thesis by (simp add: step_bonded_unsigned)
    next
      case False
      have "accountOf (accountStates (step L (now, c))) b = accountOf (accountStates L) b"
        by (subst step_accounts) (simp add: accountOf_upd False)
      with I show ?thesis by simp
    qed
    with xc show "\<forall>b. 0 \<le> bonded (accountOf (accountStates (step L x)) b)" by simp
  qed
  then show ?thesis by (simp add: run_def accountView_alt)
qed

text \<open>
  Claim C2. In every ledger reached from the empty one by calls whose amounts are
  unsigned, no single call lowers the sum of free balance, bonded, unbonding and claimable
  rewards of any account: \<open>JoinPool\<close>, \<open>BondExtra\<close>, \<open>Unbond\<close>, \<open>WithdrawUnbonded\<close> and
  \<open>ClaimRewards\<close> leave the sum unchanged, whatever their arguments and outcome, and
  \<open>GetStatus\<close> can only raise it.
\<close>

theorem conservation:
  assumes "list_all (\<lambda>x. amountUnsigned (snd x)) ops"
  shows "total (accountView (snd (mockJoinPool now b p s (run ops))) a) =
           total (accountView (run ops) a)
       \<and> total (accountView (snd (mockBondExtra b s (run ops))) a) =
           total (accountView (run ops) a)
       \<and> total (accountView (snd (mockUnbond now b s (run ops))) a) =
           total (accountView (run ops) a)
       \<and> total (accountView (snd (mockWithdrawUnbonded now b (run ops))) a) =
           total (accountView (run ops) a)
       \<and> total (accountView (snd (mockClaimRewards b pid (run ops))) a) =
           total (accountView (run ops) a)
       \<and> total (accountView (run ops) a) \<le>
           total (accountView (snd (mockGetStakingStatus b (run ops))) a)
       \<and> total (accountView (run ops) a) \<le>
           total (accountView (step (run ops) (now, c)) a)"
proof -
  let ?L = "run ops"
  have nn: "0 \<le> bigint_div (bonded (accountView ?L d)) 1000" for d
    using bonded_unsigned_run [OF assms, of d] by (rule bigint_div_sign)
  have st: "total (accountView ?L a) \<le> total (accountView (snd (mockGetStakingStatus d ?L)) a)"
    for d
    using nn [of d] total_after_call [of now d p s ?L a pid] by simp
  have any: "total (accountView ?L a) \<le> total (accountView (step ?L (now, c)) a)"
  proof (cases c)
    case (JoinPool d q t)
    with total_after_call [of now d q t ?L a pid] show ?thesis by simp
  next
    case (BondExtra d t)
    with total_after_call [of now d p t ?L a pid] show ?thesis by simp
  next
    case (Unbond d t)
    with total_after_call [of now d p t ?L a pid] show ?thesis by simp
  next
    case (WithdrawUnbonded d)
    with total_after_call [of now d p s ?L a pid] show ?thesis by simp
  next
    case (ClaimRewards d q)
    with total_after_call [of now d p s ?L a q] show ?thesis by simp
  next
    case (GetStatus d)
    with st [of d] show ?thesis by simp
  qed
  from total_after_call [of now b p s ?L a pid] st [of b] any show ?thesis by simp
qed

theorem conservation_witness:
  "list_all (\<lambda>x. amountUnsigned (snd x)) [(0, JoinPool ''alice'' 1 ''1000'')]
 \<and> total (accountView aliceJoined ''alice'') = 10000000000000
 \<and> total (accountView (snd (mockUnbond 0 ''alice'' ''400'' aliceJoined)) ''alice'') =
      10000000000000
 \<and> total (accountView (snd (mockGetStakingStatus ''alice'' aliceJoined)) ''alice'') =
      10000000000001
 \<and> total (accountView aliceJoined ''alice'') \<le>
      total (accountView (step aliceJoined (0, GetStatus ''alice'')) ''alice'')"
proof -
  have h: "list_all (\<lambda>x. amountUnsigned (snd x)) [(0, JoinPool ''alice'' 1 ''1000'')]"
    by (simp add: parse_defs)
  have v: "accountView aliceJoined ''alice'' =
        \<lparr>balance = 9999999999000, poolId = Some 1, bonded = 1000, unbonding = 0,
         unbondingEra = None, claimableRewards = 0\<rparr>"
    by (simp add: aliceJoined_eq view_simps)
  have g: "total (accountView (snd (mockGetStakingStatus ''alice'' aliceJoined)) ''alice'') =
      10000000000001"
    by (simp add: aliceJoined_eq mockGetStakingStatus_def getAccountState_conv view_simps
        total_def bigint_div_1000 Let_def)
  from conservation [OF h, of 0 "''alice''" 1 "''400''" "''alice''" None "GetStatus ''alice''"]
       h g
  show ?thesis by (simp add: aliceJoined_def [symmetric] v total_def)
qed

section \<open>Amounts that do not parse\<close>

text \<open>
  Claim C3, as stated, asks that an amount string that is not an unsigned decimal numeral
  makes \<open>JoinPool\<close>, \<open>BondExtra\<close> and \<open>Unbond\<close> return a failure outcome of kind
  validation error and never throw. The operations convert the amount with \<open>BigInt\<close> and
  check nothing before: on \<open>abc\<close> the conversion throws a SyntaxError and the operation
  with it.
\<close>

theorem unparsable_amount_counterexample:
  "fst (mockJoinPool 0 ''alice'' 1 ''abc'' emptyLedger) = Throw SyntaxError"
  by (simp add: op_defs parse_defs)

text \<open>
  Claim C3, amended. For every amount string that \<open>BigInt\<close> rejects, \<open>JoinPool\<close>,
  \<open>BondExtra\<close> and \<open>Unbond\<close> throw a SyntaxError instead of returning an outcome, and
  what a caller sees of every account and of every pool is the same before and after.
\<close>

theorem unparsable_amount_throws:
  assumes "BigInt amount = None"
  shows "fst (mockJoinPool now a p amount L) = Throw SyntaxError
       \<and> fst (mockBondExtra a amount L) = Throw SyntaxError
       \<and> fst (mockUnbond now a amount L) = Throw SyntaxError
       \<and> (\<forall>b. accountView (snd (mockJoinPool now a p amount L)) b = accountView L b)
       \<and> (\<forall>q. poolView (snd (mockJoinPool now a p amount L)) q = poolView L q)
       \<and> (\<forall>b. accountView (snd (mockBondExtra a amount L)) b = accountView L b)
       \<and> (\<forall>q. poolView (snd (mockBondExtra a amount L)) q = poolView L q)
       \<and> (\<forall>b. accountView (snd (mockUnbond now a amount L)) b = accountView L b)
       \<and> (\<forall>q. poolView (snd (mockUnbond now a amount L)) q = poolView L q)"
  using assms by (simp add: op_defs view_simps)

theorem unparsable_amount_throws_witness:
  "BigInt ''12.5'' = None
 \<and> fst (mockJoinPool 0 ''alice'' 1 ''12.5'' emptyLedger) = Throw SyntaxError
 \<and> fst (mockBondExtra ''alice'' ''12.5'' aliceJoined) = Throw SyntaxError
 \<and> fst (mockUnbond 0 ''alice'' ''12.5'' aliceJoined) = Throw SyntaxError"
proof -
  have h: "BigInt ''12.5'' = None" by (simp add: parse_defs)
  from unparsable_amount_throws [OF h, of 0 "''alice''" 1 emptyLedger]
       unparsable_amount_throws [OF h, of 0 "''alice''" 1 aliceJoined] h
  show ?thesis by simp
qed

section \<open>Unbonding\<close>

text \<open>
  Claim C4. In a ledger reached from the empty one, for an account in pool \<open>p\<close> and an
  amount that parses to at most the bonded amount, \<open>Unbond\<close> succeeds; it takes the amount
  from bonded and adds it to unbonding, sets the release time to the clock reading plus the
  unbonding period whatever it was before, and takes the amount from the pool's total.
  Exactly when the bonded amount becomes zero it clears the pool id and lowers the pool's
  member count by one; otherwise both stay. Nothing else changes.
\<close>

theorem unbond_effect:
  assumes "L = run ops"
      and "poolId (accountView L a) = Some p"
      and "BigInt amount = Some n"
      and "n \<le> bonded (accountView L a)"
  shows "(\<exists>m. fst (mockUnbond now a amount L) = Return (succeeded m))
       \<and> bonded (accountView (snd (mockUnbond now a amount L)) a) = bonded (accountView L a) - n
       \<and> unbonding (accountView (snd (mockUnbond now a amount L)) a) =
           unbonding (accountView L a) + n
       \<and> unbondingEra (accountView (snd (mockUnbond now a amount L)) a) =
           Some (now + UNBONDING_PERIOD_MS)
       \<and> pool_bonded (poolView (snd (mockUnbond now a amount L)) p) =
           pool_bonded (poolView L p) - n
       \<and> (bonded (accountView L a) - n = 0 \<longrightarrow>
            poolId (accountView (snd (mockUnbond now a amount L)) a) = None
          \<and> memberCount (poolView (snd (mockUnbond now a amount L)) p) =
              memberCount (poolView L p) - 1)
       \<and> (bonded (accountView L a) - n \<noteq> 0 \<longrightarrow>
            poolId (accountView (snd (mockUnbond now a amount L)) a) = Some p
          \<and> memberCount (poolView (snd (mockUnbond now a amount L)) p) =
              memberCount (poolView L p))
       \<and> balance (accountView (snd (mockUnbond now a amount L)) a) = balance (accountView L a)
       \<and> claimableRewards (accountView (snd (mockUnbond now a amount L)) a) =
           claimableRewards (accountView L a)
       \<and> (\<forall>b. b \<noteq> a \<longrightarrow> accountView (snd (mockUnbond now a amount L)) b = accountView L b)
       \<and> (\<forall>q. q \<noteq> p \<longrightarrow> poolView (snd (mockUnbond now a amount L)) q = poolView L q)"
proof -
  from assms(1) have C: "consistent L" by (simp add: consistent_run)
  from assms(2) have p: "poolId (accountOf (accountStates L) a) = Some p"
    by (simp add: accountView_alt)
  from assms(4) have le: "n \<le> bonded (accountOf (accountStates L) a)"
    by (simp add: accountView_alt)
  from p le assms(3) have U: "unbonds a amount L" by (simp add: unbonds_def)
  have m: "1 \<le> memberCount (poolOf (poolStates L) p)"
    by (rule consistent_member_counted [OF C p])
  have r: "\<exists>m. fst (mockUnbond now a amount L) = Return (succeeded m)"
    using p le assms(3) by (auto simp: op_defs)
  from m assms(3) show ?thesis
    by (simp add: r view_simps unbond_ok [OF U p] p)
qed

theorem unbond_effect_witness:
  "poolId (accountView alicePartlyUnbonded ''alice'') = Some 1
 \<and> BigInt ''600'' = Some 600
 \<and> 600 \<le> bonded (accountView alicePartlyUnbonded ''alice'')
 \<and> unbondingEra (accountView alicePartlyUnbonded ''alice'') = Some 2419200000
 \<and> bonded (accountView (snd (mockUnbond 1000 ''alice'' ''600'' alicePartlyUnbonded))
      ''alice'') = 0
 \<and> unbonding (accountView (snd (mockUnbond 1000 ''alice'' ''600'' alicePartlyUnbonded))
      ''alice'') = 1000
 \<and> unbondingEra (accountView (snd (mockUnbond 1000 ''alice'' ''600'' alicePartlyUnbonded))
      ''alice'') = Some 2419201000
 \<and> poolId (accountView (snd (mockUnbond 1000 ''alice'' ''600'' alicePartlyUnbonded))
      ''alice'') = None
 \<and> memberCount (poolView (snd (mockUnbond 1000 ''alice'' ''600'' alicePartlyUnbonded)) 1) = 0
 \<and> pool_bonded (poolView (snd (mockUnbond 1000 ''alice'' ''600'' alicePartlyUnbonded)) 1) = 0"
proof -
  have v: "accountView alicePartlyUnbonded ''alice'' =
        \<lparr>balance = 9999999999000, poolId = Some 1, bonded = 600, unbonding = 400,
         unbondingEra = Some 2419200000, claimableRewards = 0\<rparr>"
    and w: "poolView alicePartlyUnbonded 1 = (newPool 1)\<lparr>pool_bonded := 600, memberCount := 1\<rparr>"
    by (simp_all add: alicePartlyUnbonded_eq view_simps)
  have h1: "alicePartlyUnbonded =
      run [(0, JoinPool ''alice'' 1 ''1000''), (0, Unbond ''alice'' ''400'')]"
    by (simp add: alicePartlyUnbonded_def)
  have h2: "poolId (accountView alicePartlyUnbonded ''alice'') = Some 1" by (simp add: v)
  have h3: "BigInt ''600'' = Some 600" by (simp add: parse_defs)
  have h4: "600 \<le> bonded (accountView alicePartlyUnbonded ''alice'')" by (simp add: v)
  from unbond_effect [OF h1 h2 h3 h4, of 1000] h2 h3 h4
  show ?thesis by (simp add: v w UNBONDING_PERIOD_MS_def)
qed

section \<open>Withdrawing unbonded funds\<close>

text \<open>
  Claim C5. \<open>WithdrawUnbonded\<close> on an account with nothing unbonding fails with
  \<open>NO_UNBONDED_FUNDS\<close>. With a nonzero unbonding amount and the clock strictly before the
  release time (an absent release time counts as 0) it fails with
  \<open>UNBONDING_PERIOD_NOT_COMPLETE\<close> and the ledger is left as it was. With a nonzero
  unbonding amount and the clock at or after the release time it succeeds, adds the whole
  unbonding amount to the free balance, sets unbonding to 0 and clears the release time;
  no other account and no pool changes.
\<close>

theorem withdraw_gate:
  "(unbonding (accountView L a) = 0 \<longrightarrow>
      (\<exists>m. fst (mockWithdrawUnbonded now a L) = Return (failed m ''NO_UNBONDED_FUNDS''))
    \<and> (\<forall>b. accountView (snd (mockWithdrawUnbonded now a L)) b = accountView L b)
    \<and> poolStates (snd (mockWithdrawUnbonded now a L)) = poolStates L)
 \<and> (unbonding (accountView L a) \<noteq> 0 \<and> now < orZero (unbondingEra (accountView L a)) \<longrightarrow>
      (\<exists>m. fst (mockWithdrawUnbonded now a L) =
             Return (failed m ''UNBONDING_PERIOD_NOT_COMPLETE''))
    \<and> snd (mockWithdrawUnbonded now a L) = L)
 \<and> (unbonding (accountView L a) \<noteq> 0 \<and> orZero (unbondingEra (accountView L a)) \<le> now \<longrightarrow>
      (\<exists>m. fst (mockWithdrawUnbonded now a L) = Return (succeeded m))
    \<and> accountView (snd (mockWithdrawUnbonded now a L)) a =
        (accountView L a)
          \<lparr>balance := balance (accountView L a) + unbonding (accountView L a),
           unbonding := 0, unbondingEra := None\<rparr>
    \<and> (\<forall>b. b \<noteq> a \<longrightarrow> accountView (snd (mockWithdrawUnbonded now a L)) b = accountView L b)
    \<and> poolStates (snd (mockWithdrawUnbonded now a L)) = poolStates L)"
  by (auto simp: mockWithdrawUnbonded_def getAccountState_conv Let_def view_simps
      touch_account unbonding_exists)

theorem withdraw_gate_witness:
  "unbonding (accountView aliceJoined ''alice'') = 0
 \<and> (\<exists>m. fst (mockWithdrawUnbonded 5 ''alice'' aliceJoined) =
          Return (failed m ''NO_UNBONDED_FUNDS''))
 \<and> unbonding (accountView aliceUnbonded ''alice'') \<noteq> 0
 \<and> 2419199999 < orZero (unbondingEra (accountView aliceUnbonded ''alice''))
 \<and> snd (mockWithdrawUnbonded 2419199999 ''alice'' aliceUnbonded) = aliceUnbonded
 \<and> orZero (unbondingEra (accountView aliceUnbonded ''alice'')) \<le> 2419200000
 \<and> balance (accountView (snd (mockWithdrawUnbonded 2419200000 ''alice'' aliceUnbonded))
      ''alice'') = 10000000000000
 \<and> unbonding (accountView (snd (mockWithdrawUnbonded 2419200000 ''alice'' aliceUnbonded))
      ''alice'') = 0"
proof -
  have h1: "unbonding (accountView aliceJoined ''alice'') = 0"
    by (simp add: aliceJoined_eq view_simps)
  have h2: "unbonding (accountView aliceUnbonded ''alice'') \<noteq> 0
          \<and> 2419199999 < orZero (unbondingEra (accountView aliceUnbonded ''alice''))"
    by (simp add: aliceUnbonded_eq view_simps orZero_def)
  have h3: "unbonding (accountView aliceUnbonded ''alice'') \<noteq> 0
          \<and> orZero (unbondingEra (accountView aliceUnbonded ''alice'')) \<le> 2419200000"
    by (simp add: aliceUnbonded_eq view_simps orZero_def)
  have v: "accountView aliceUnbonded ''alice'' =
        \<lparr>balance = 9999999999000, poolId = None, bonded = 0, unbonding = 1000,
         unbondingEra = Some 2419200000, claimableRewards = 0\<rparr>"
    by (simp add: aliceUnbonded_eq view_simps)
  from withdraw_gate [of aliceJoined "''alice''" 5] h1
       withdraw_gate [of aliceUnbonded "''alice''" 2419199999] h2
       withdraw_gate [of aliceUnbonded "''alice''" 2419200000] h3
  show ?thesis by (simp add: v)
qed

section \<open>Reading the staking status\<close>

text \<open>
  Claim C6. \<open>GetStatus\<close> on an account that is in a pool with a nonzero bonded amount
  adds \<open>bonded / 1000\<close> (BigInt division, which is the integer quotient for a bonded
  amount that is not negative) to the claimable rewards before it returns, and changes no
  other field, no other account and no pool; with 1000 bonded each call adds exactly 1.
  On an account outside every pool, or with nothing bonded, it changes nothing. The
  returned \<open>isMember\<close> says whether the pool id is present.
\<close>

theorem status_accrual:
  "(poolId (accountView L a) \<noteq> None \<and> bonded (accountView L a) \<noteq> 0 \<longrightarrow>
      accountView (snd (mockGetStakingStatus a L)) a =
        (accountView L a)
          \<lparr>claimableRewards :=
             claimableRewards (accountView L a) + bigint_div (bonded (accountView L a)) 1000\<rparr>)
 \<and> (poolId (accountView L a) = None \<or> bonded (accountView L a) = 0 \<longrightarrow>
      accountView (snd (mockGetStakingStatus a L)) a = accountView L a)
 \<and> (0 \<le> bonded (accountView L a) \<longrightarrow>
      bigint_div (bonded (accountView L a)) 1000 = bonded (accountView L a) div 1000)
 \<and> (poolId (accountView L a) \<noteq> None \<and> bonded (accountView L a) = 1000 \<longrightarrow>
      claimableRewards (accountView (snd (mockGetStakingStatus a L)) a) =
        claimableRewards (accountView L a) + 1)
 \<and> (\<forall>b. b \<noteq> a \<longrightarrow> accountView (snd (mockGetStakingStatus a L)) b = accountView L b)
 \<and> poolStates (snd (mockGetStakingStatus a L)) = poolStates L
 \<and> isMember (fst (mockGetStakingStatus a L)) = (poolId (accountView L a) \<noteq> None)
 \<and> st_poolId (fst (mockGetStakingStatus a L)) = poolId (accountView L a)
 \<and> st_bonded (fst (mockGetStakingStatus a L)) = bonded (accountView L a)
 \<and> st_unbonding (fst (mockGetStakingStatus a L)) = unbonding (accountView L a)
 \<and> st_balance (fst (mockGetStakingStatus a L)) = balance (accountView L a)
 \<and> st_claimableRewards (fst (mockGetStakingStatus a L)) =
      claimableRewards (accountView (snd (mockGetStakingStatus a L)) a)"
  by (auto simp: mockGetStakingStatus_def getAccountState_conv Let_def view_simps
      bigint_div_nonneg bigint_div_1000)

theorem status_accrual_witness:
  "poolId (accountView aliceJoined ''alice'') \<noteq> None
 \<and> bonded (accountView aliceJoined ''alice'') = 1000
 \<and> claimableRewards (accountView (snd (mockGetStakingStatus ''alice'' aliceJoined)) ''alice'') = 1
 \<and> claimableRewards (accountView
      (snd (mockGetStakingStatus ''alice'' (snd (mockGetStakingStatus ''alice'' aliceJoined))))
      ''alice'') = 2
 \<and> poolId (accountView aliceUnbonded ''alice'') = None
 \<and> accountView (snd (mockGetStakingStatus ''alice'' aliceUnbonded)) ''alice'' =
      accountView aliceUnbonded ''alice''"
proof -
  have h1: "poolId (accountView aliceJoined ''alice'') \<noteq> None
          \<and> bonded (accountView aliceJoined ''alice'') = 1000"
    by (simp add: aliceJoined_eq view_simps)
  have c0: "claimableRewards (accountView aliceJoined ''alice'') = 0"
    by (simp add: aliceJoined_eq view_simps)
  define L1 where "L1 = snd (mockGetStakingStatus ''alice'' aliceJoined)"
  have s1: "accountView L1 ''alice'' = (accountView aliceJoined ''alice'')\<lparr>claimableRewards := 1\<rparr>"
    using status_accrual [of aliceJoined "''alice''"] h1 c0
    by (simp add: L1_def bigint_div_1000)
  have h2: "poolId (accountView L1 ''alice'') \<noteq> None \<and> bonded (accountView L1 ''alice'') = 1000"
    using s1 h1 by simp
  have s2: "claimableRewards (accountView (snd (mockGetStakingStatus ''alice'' L1)) ''alice'') = 2"
    using status_accrual [of L1 "''alice''"] h2 s1 by simp
  have h3: "poolId (accountView aliceUnbonded ''alice'') = None"
    by (simp add: aliceUnbonded_eq view_simps)
  from status_accrual [of aliceUnbonded "''alice''"] h3 h1 s1 s2
  show ?thesis by (simp add: L1_def)
qed

section \<open>Reading pool information\<close>

text \<open>
  Claim C7, as stated, asks that the pool-info query on a pool that has no record yet
  leaves the pool map as it was. \<open>mockGetPoolInfo\<close> goes through the get-or-create
  accessor, so the query on pool 1 of the empty ledger stores a record for pool 1.
\<close>

theorem pool_info_persists_counterexample:
  "poolStates emptyLedger 1 = None
 \<and> poolStates (snd (mockGetPoolInfo 1 emptyLedger)) 1 = Some (newPool 1)
 \<and> poolStates (snd (mockGetPoolInfo 1 emptyLedger)) \<noteq> poolStates emptyLedger"
proof -
  have a: "poolStates (snd (mockGetPoolInfo 1 emptyLedger)) 1 = Some (newPool 1)"
    by (simp add: mockGetPoolInfo_def getPoolState_def emptyLedger_def)
  have b: "poolStates emptyLedger 1 = None" by (simp add: emptyLedger_def)
  from a b have "poolStates (snd (mockGetPoolInfo 1 emptyLedger)) \<noteq> poolStates emptyLedger"
    by (metis option.distinct(1))
  with a b show ?thesis by simp
qed

text \<open>
  Claim C7, amended. The pool-info query on a pool that has no record yet returns the
  default view (open, nothing bonded, no members) and stores exactly that default record
  for the pool; what a caller sees of any pool is the same before and after, and no account
  record changes.
\<close>

theorem pool_info_untouched:
  assumes "poolStates L pid = None"
  shows "info_state (fst (mockGetPoolInfo pid L)) = Open
       \<and> info_bonded (fst (mockGetPoolInfo pid L)) = 0
       \<and> info_memberCount (fst (mockGetPoolInfo pid L)) = 0
       \<and> info_poolId (fst (mockGetPoolInfo pid L)) = pid
       \<and> info_commission (fst (mockGetPoolInfo pid L)) = ''0%''
       \<and> poolStates (snd (mockGetPoolInfo pid L)) = (poolStates L)(pid \<mapsto> newPool pid)
       \<and> accountStates (snd (mockGetPoolInfo pid L)) = accountStates L
       \<and> (\<forall>q. poolView (snd (mockGetPoolInfo pid L)) q = poolView L q)"
  using assms
  by (auto simp: mockGetPoolInfo_def getPoolState_def view_simps newPool_def poolOf_def)

theorem pool_info_untouched_witness:
  "poolStates emptyLedger 7 = None
 \<and> info_state (fst (mockGetPoolInfo 7 emptyLedger)) = Open
 \<and> poolStates (snd (mockGetPoolInfo 7 emptyLedger)) = [7 \<mapsto> newPool 7]
 \<and> poolView (snd (mockGetPoolInfo 7 emptyLedger)) 7 = poolView emptyLedger 7"
proof -
  have h: "poolStates emptyLedger 7 = None" by (simp add: emptyLedger_def)
  from pool_info_untouched [OF h] h show ?thesis by (simp add: emptyLedger_def)
qed

section \<open>The checks of a join\<close>

text \<open>
  Claim C8. For an amount that parses, \<open>JoinPool\<close> reports the first of these that
  applies: the pool is not open (\<open>POOL_NOT_OPEN\<close>); the account is in another pool
  (\<open>ALREADY_IN_POOL\<close>); funds are unbonding and the release time is still ahead
  (\<open>FUNDS_UNBONDING\<close>); the free balance is below the amount plus the fee reserve
  (\<open>INSUFFICIENT_BALANCE\<close>); the account is in this pool already (\<open>ALREADY_IN_POOL\<close>);
  and it succeeds when none applies. A call that does not succeed leaves what a caller sees
  of every account and every pool unchanged. In particular an account with a free balance
  of 500, no pool and nothing unbonding that joins an open pool with 1000 fails with
  \<open>INSUFFICIENT_BALANCE\<close> and nothing is deducted, and a pool that is not open gives
  \<open>POOL_NOT_OPEN\<close> whatever the account.
\<close>

theorem join_checks:
  "(BigInt amount = Some n \<longrightarrow>
      (state (poolView L p) \<noteq> Open \<longrightarrow>
         (\<exists>m. fst (mockJoinPool now a p amount L) = Return (failed m ''POOL_NOT_OPEN'')))
    \<and> (state (poolView L p) = Open
        \<and> poolId (accountView L a) \<noteq> None \<and> poolId (accountView L a) \<noteq> Some p \<longrightarrow>
         (\<exists>m. fst (mockJoinPool now a p amount L) = Return (failed m ''ALREADY_IN_POOL'')))
    \<and> (state (poolView L p) = Open
        \<and> (poolId (accountView L a) = None \<or> poolId (accountView L a) = Some p)
        \<and> 0 < unbonding (accountView L a)
        \<and> now < orZero (unbondingEra (accountView L a)) \<longrightarrow>
         (\<exists>m. fst (mockJoinPool now a p amount L) = Return (failed m ''FUNDS_UNBONDING'')))
    \<and> (state (poolView L p) = Open
        \<and> (poolId (accountView L a) = None \<or> poolId (accountView L a) = Some p)
        \<and> \<not> (0 < unbonding (accountView L a)
             \<and> now < orZero (unbondingEra (accountView L a)))
        \<and> balance (accountView L a) < n + minReserve \<longrightarrow>
         (\<exists>m. fst (mockJoinPool now a p amount L) = Return (failed m ''INSUFFICIENT_BALANCE'')))
    \<and> (state (poolView L p) = Open
        \<and> poolId (accountView L a) = Some p
        \<and> \<not> (0 < unbonding (accountView L a)
             \<and> now < orZero (unbondingEra (accountView L a)))
        \<and> \<not> balance (accountView L a) < n + minReserve \<longrightarrow>
         (\<exists>m. fst (mockJoinPool now a p amount L) = Return (failed m ''ALREADY_IN_POOL'')))
    \<and> (state (poolView L p) = Open
        \<and> poolId (accountView L a) = None
        \<and> \<not> (0 < unbonding (accountView L a)
             \<and> now < orZero (unbondingEra (accountView L a)))
        \<and> \<not> balance (accountView L a) < n + minReserve \<longrightarrow>
         (\<exists>m. fst (mockJoinPool now a p amount L) = Return (succeeded m))))
 \<and> ((\<forall>m. fst (mockJoinPool now a p amount L) \<noteq> Return (succeeded m)) \<longrightarrow>
       (\<forall>b. accountView (snd (mockJoinPool now a p amount L)) b = accountView L b)
     \<and> (\<forall>q. poolView (snd (mockJoinPool now a p amount L)) q = poolView L q))
 \<and> (state (poolView L p) = Open \<and> balance (accountView L a) = 500
     \<and> poolId (accountView L a) = None \<and> unbonding (accountView L a) = 0 \<longrightarrow>
       (\<exists>m. fst (mockJoinPool now a p ''1000'' L) = Return (failed m ''INSUFFICIENT_BALANCE''))
     \<and> (\<forall>b. accountView (snd (mockJoinPool now a p ''1000'' L)) b = accountView L b)
     \<and> (\<forall>q. poolView (snd (mockJoinPool now a p ''1000'' L)) q = poolView L q))"
proof (intro conjI)
  show "BigInt amount = Some n \<longrightarrow>
      (state (poolView L p) \<noteq> Open \<longrightarrow>
         (\<exists>m. fst (mockJoinPool now a p amount L) = Return (failed m ''POOL_NOT_OPEN'')))
    \<and> (state (poolView L p) = Open
        \<and> poolId (accountView L a) \<noteq> None \<and> poolId (accountView L a) \<noteq> Some p \<longrightarrow>
         (\<exists>m. fst (mockJoinPool now a p amount L) = Return (failed m ''ALREADY_IN_POOL'')))
    \<and> (state (poolView L p) = Open
        \<and> (poolId (accountView L a) = None \<or> poolId (accountView L a) = Some p)
        \<and> 0 < unbonding (accountView L a)
        \<and> now < orZero (unbondingEra (accountView L a)) \<longrightarrow>
         (\<exists>m. fst (mockJoinPool now a p amount L) = Return (failed m ''FUNDS_UNBONDING'')))
    \<and> (state (poolView L p) = Open
        \<and> (poolId (accountView L a) = None \<or> poolId (accountView L a) = Some p)
        \<and> \<not> (0 < unbonding (accountView L a)
             \<and> now < orZero (unbondingEra (accountView L a)))
        \<and> balance (accountView L a) < n + minReserve \<longrightarrow>
         (\<exists>m. fst (mockJoinPool now a p amount L) = Return (failed m ''INSUFFICIENT_BALANCE'')))
    \<and> (state (poolView L p) = Open
        \<and> poolId (accountView L a) = Some p
        \<and> \<not> (0 < unbonding (accountView L a)
             \<and> now < orZero (unbondingEra (accountView L a)))
        \<and> \<not> balance (accountView L a) < n + minReserve \<longrightarrow>
         (\<exists>m. fst (mockJoinPool now a p amount L) = Return (failed m ''ALREADY_IN_POOL'')))
    \<and> (state (poolView L p) = Open
        \<and> poolId (accountView L a) = None
        \<and> \<not> (0 < unbonding (accountView L a)
             \<and> now < orZero (unbondingEra (accountView L a)))
        \<and> \<not> balance (accountView L a) < n + minReserve \<longrightarrow>
         (\<exists>m. fst (mockJoinPool now a p amount L) = Return (succeeded m)))"
    by (auto simp: op_defs view_simps)
  show "(\<forall>m. fst (mockJoinPool now a p amount L) \<noteq> Return (succeeded m)) \<longrightarrow>
       (\<forall>b. accountView (snd (mockJoinPool now a p amount L)) b = accountView L b)
     \<and> (\<forall>q. poolView (snd (mockJoinPool now a p amount L)) q = poolView L q)"
    by (auto simp: op_defs view_simps split: option.splits if_splits)
  have p1000: "BigInt ''1000'' = Some 1000" by (simp add: parse_defs)
  show "state (poolView L p) = Open \<and> balance (accountView L a) = 500
     \<and> poolId (accountView L a) = None \<and> unbonding (accountView L a) = 0 \<longrightarrow>
       (\<exists>m. fst (mockJoinPool now a p ''1000'' L) = Return (failed m ''INSUFFICIENT_BALANCE''))
     \<and> (\<forall>b. accountView (snd (mockJoinPool now a p ''1000'' L)) b = accountView L b)
     \<and> (\<forall>q. poolView (snd (mockJoinPool now a p ''1000'' L)) q = poolView L q)"
    by (auto simp: op_defs view_simps p1000 minReserve_def)
qed

theorem join_checks_witness:
  "BigInt ''1000'' = Some 1000
 \<and> state (poolView blockedAndPoor 2) \<noteq> Open
 \<and> (\<exists>m. fst (mockJoinPool 0 ''bob'' 2 ''1000'' blockedAndPoor) =
          Return (failed m ''POOL_NOT_OPEN''))
 \<and> poolId (accountView aliceJoined ''alice'') = Some 1
 \<and> (\<exists>m. fst (mockJoinPool 0 ''alice'' 2 ''1000'' aliceJoined) =
          Return (failed m ''ALREADY_IN_POOL''))
 \<and> 0 < unbonding (accountView aliceUnbonded ''alice'')
 \<and> 1 < orZero (unbondingEra (accountView aliceUnbonded ''alice''))
 \<and> (\<exists>m. fst (mockJoinPool 1 ''alice'' 1 ''1000'' aliceUnbonded) =
          Return (failed m ''FUNDS_UNBONDING''))
 \<and> balance (accountView blockedAndPoor ''bob'') = 500
 \<and> (\<exists>m. fst (mockJoinPool 0 ''bob'' 1 ''1000'' blockedAndPoor) =
          Return (failed m ''INSUFFICIENT_BALANCE''))
 \<and> accountView (snd (mockJoinPool 0 ''bob'' 1 ''1000'' blockedAndPoor)) ''bob'' =
      accountView blockedAndPoor ''bob''
 \<and> poolView (snd (mockJoinPool 0 ''bob'' 1 ''1000'' blockedAndPoor)) 1 =
      poolView blockedAndPoor 1
 \<and> (\<exists>m. fst (mockJoinPool 0 ''alice'' 1 ''1000'' aliceJoined) =
          Return (failed m ''ALREADY_IN_POOL''))
 \<and> (\<exists>m. fst (mockJoinPool 0 ''alice'' 1 ''1000'' emptyLedger) = Return (succeeded m))"
proof -
  have p: "BigInt ''1000'' = Some 1000" by (simp add: parse_defs)
  have aj: "accountView aliceJoined ''alice'' =
        \<lparr>balance = 9999999999000, poolId = Some 1, bonded = 1000, unbonding = 0,
         unbondingEra = None, claimableRewards = 0\<rparr>"
    and ajp: "state (poolView aliceJoined 1) = Open" "state (poolView aliceJoined 2) = Open"
    by (simp_all add: aliceJoined_eq view_simps poolOf_def newPool_def)
  have au: "accountView aliceUnbonded ''alice'' =
        \<lparr>balance = 9999999999000, poolId = None, bonded = 0, unbonding = 1000,
         unbondingEra = Some 2419200000, claimableRewards = 0\<rparr>"
    and aup: "state (poolView aliceUnbonded 1) = Open"
    by (simp_all add: aliceUnbonded_eq view_simps poolOf_def newPool_def)
  have e: "accountView emptyLedger ''alice'' = newAccount"
    and ep: "state (poolView emptyLedger 1) = Open"
    by (simp_all add: emptyLedger_def view_simps poolOf_def accountOf_def newPool_def)
  note bp = blockedAndPoor_views
  from join_checks [where amount = "''1000''" and n = 1000 and L = blockedAndPoor
                      and p = 2 and a = "''bob''" and now = 0]
       join_checks [where amount = "''1000''" and n = 1000 and L = aliceJoined
                      and p = 2 and a = "''alice''" and now = 0]
       join_checks [where amount = "''1000''" and n = 1000 and L = aliceUnbonded
                      and p = 1 and a = "''alice''" and now = 1]
       join_checks [where amount = "''1000''" and n = 1000 and L = blockedAndPoor
                      and p = 1 and a = "''bob''" and now = 0]
       join_checks [where amount = "''1000''" and n = 1000 and L = aliceJoined
                      and p = 1 and a = "''alice''" and now = 0]
       join_checks [where amount = "''1000''" and n = 1000 and L = emptyLedger
                      and p = 1 and a = "''alice''" and now = 0]
  show ?thesis
    by (simp add: p aj ajp au aup e ep bp orZero_def minReserve_def newAccount_def
        DEFAULT_BALANCE_def)
qed

section \<open>Claiming rewards\<close>

text \<open>
  Claim C9. For an account that is in a pool, called with that pool or with no pool:
  \<open>ClaimRewards\<close> with no claimable rewards returns success with the message
  \<open>No rewards to claim\<close> and no error code, and the ledger is exactly the one before, so
  that a second call does the same; with positive claimable rewards it succeeds, adds them
  to the free balance and sets them to 0, changing nothing else.
\<close>

theorem claim_rewards:
  assumes "poolId (accountView L a) = Some p" and "pid = None \<or> pid = Some p"
  shows "(claimableRewards (accountView L a) = 0 \<longrightarrow>
            mockClaimRewards a pid L =
              (Return \<lparr>success = True, message = [Str ''No rewards to claim''], error = None\<rparr>, L)
          \<and> mockClaimRewards a pid (snd (mockClaimRewards a pid L)) = mockClaimRewards a pid L)
       \<and> (0 < claimableRewards (accountView L a) \<longrightarrow>
            (\<exists>m. fst (mockClaimRewards a pid L) = Return (succeeded m))
          \<and> accountView (snd (mockClaimRewards a pid L)) a =
              (accountView L a)
                \<lparr>balance := balance (accountView L a) + claimableRewards (accountView L a),
                 claimableRewards := 0\<rparr>
          \<and> (\<forall>b. b \<noteq> a \<longrightarrow> accountView (snd (mockClaimRewards a pid L)) b = accountView L b)
          \<and> poolStates (snd (mockClaimRewards a pid L)) = poolStates L)"
  using assms
  by (auto simp: mockClaimRewards_def getAccountState_conv succeeded_def Let_def view_simps
      touch_account member_exists)

theorem claim_rewards_witness:
  "poolId (accountView aliceJoined ''alice'') = Some 1
 \<and> claimableRewards (accountView aliceJoined ''alice'') = 0
 \<and> mockClaimRewards ''alice'' None aliceJoined =
      (Return \<lparr>success = True, message = [Str ''No rewards to claim''], error = None\<rparr>,
       aliceJoined)
 \<and> mockClaimRewards ''alice'' (Some 1) aliceJoined =
      (Return \<lparr>success = True, message = [Str ''No rewards to claim''], error = None\<rparr>,
       aliceJoined)
 \<and> 0 < claimableRewards (accountView aliceRewarded ''alice'')
 \<and> balance (accountView (snd (mockClaimRewards ''alice'' None aliceRewarded)) ''alice'') =
      9999999999001
 \<and> claimableRewards (accountView (snd (mockClaimRewards ''alice'' None aliceRewarded))
      ''alice'') = 0"
proof -
  have h1: "poolId (accountView aliceJoined ''alice'') = Some 1"
    and z: "claimableRewards (accountView aliceJoined ''alice'') = 0"
    by (simp_all add: aliceJoined_eq view_simps)
  have v: "accountView aliceRewarded ''alice'' =
        \<lparr>balance = 9999999999000, poolId = Some 1, bonded = 1000, unbonding = 0,
         unbondingEra = None, claimableRewards = 1\<rparr>"
    by (simp add: aliceRewarded_def aliceJoined_eq mockGetStakingStatus_def
        getAccountState_conv view_simps bigint_div_1000 Let_def)
  have h2: "poolId (accountView aliceRewarded ''alice'') = Some 1" by (simp add: v)
  from claim_rewards [OF h1, of None] claim_rewards [OF h1, of "Some 1"]
       claim_rewards [OF h2, of None] h1 z
  show ?thesis by (simp add: v)
qed

section \<open>Negative amounts\<close>

text \<open>
  Claim C10. The sign of an amount is not checked: for an account in a pool whose bonded
  amount is not negative, \<open>Unbond\<close> with an amount that parses to a negative number, such
  as \<open>-5\<close>, passes the comparison with the bonded amount and succeeds; the bonded amount
  and the pool's total grow by the magnitude of the amount and the unbonding amount shrinks
  by it, below zero when it was smaller.
\<close>

theorem negative_unbond:
  assumes "poolId (accountView L a) = Some p"
      and "BigInt amount = Some n" and "n < 0"
      and "0 \<le> bonded (accountView L a)"
  shows "(\<exists>m. fst (mockUnbond now a amount L) = Return (succeeded m))
       \<and> bonded (accountView (snd (mockUnbond now a amount L)) a) =
           bonded (accountView L a) + \<bar>n\<bar>
       \<and> unbonding (accountView (snd (mockUnbond now a amount L)) a) =
           unbonding (accountView L a) - \<bar>n\<bar>
       \<and> pool_bonded (poolView (snd (mockUnbond now a amount L)) p) =
           pool_bonded (poolView L p) + \<bar>n\<bar>
       \<and> poolId (accountView (snd (mockUnbond now a amount L)) a) = Some p"
  using assms by (auto simp: op_defs view_simps)

theorem negative_unbond_witness:
  "poolId (accountView aliceJoined ''alice'') = Some 1
 \<and> BigInt ''-5'' = Some (- 5)
 \<and> 0 \<le> bonded (accountView aliceJoined ''alice'')
 \<and> (\<exists>m. fst (mockUnbond 0 ''alice'' ''-5'' aliceJoined) = Return (succeeded m))
 \<and> bonded (accountView (snd (mockUnbond 0 ''alice'' ''-5'' aliceJoined)) ''alice'') = 1005
 \<and> unbonding (accountView (snd (mockUnbond 0 ''alice'' ''-5'' aliceJoined)) ''alice'') = - 5
 \<and> pool_bonded (poolView (snd (mockUnbond 0 ''alice'' ''-5'' aliceJoined)) 1) = 1005"
proof -
  have v: "accountView aliceJoined ''alice'' =
        \<lparr>balance = 9999999999000, poolId = Some 1, bonded = 1000, unbonding = 0,
         unbondingEra = None, claimableRewards = 0\<rparr>"
    and w: "pool_bonded (poolView aliceJoined 1) = 1000"
    by (simp_all add: aliceJoined_eq view_simps)
  have h1: "poolId (accountView aliceJoined ''alice'') = Some 1" by (simp add: v)
  have h2: "BigInt ''-5'' = Some (- 5)" by (simp add: parse_defs)
  have h3: "(- 5 :: int) < 0" by simp
  have h4: "0 \<le> bonded (accountView aliceJoined ''alice'')" by (simp add: v)
  from negative_unbond [OF h1 h2 h3 h4, of 0] h1 h2 h4
  show ?thesis by (simp add: v w)
qed

end
